theory Spec2Isabelle
  imports Complex_Main
begin

section \<open>JavaScript numbers\<close>

text \<open>
  Every numeric value of \<^verbatim>\<open>motion.js\<close> is a JavaScript number.  The model keeps the
  special values of IEEE arithmetic (the two infinities and NaN), because the source
  divides by a time difference that can be zero, and takes the finite values as exact
  reals: rounding is not modelled, and the two zeros are one value.  The only divisors
  in the source are the constants 100 and 1000 and a difference of two
  \<^verbatim>\<open>Date.now()\<close> readings, whose zero is the positive zero; division by zero is
  therefore division by \<open>+0\<close>.
\<close>

datatype jsnum = Num real | PosInf | NegInf | NaN

fun signum :: "jsnum \<Rightarrow> real" where
  "signum (Num a) = sgn a"
| "signum PosInf = 1"
| "signum NegInf = - 1"
| "signum NaN = 0"

definition signed_inf :: "real \<Rightarrow> jsnum" where
  "signed_inf r = (if 0 < r then PosInf else if r < 0 then NegInf else NaN)"

instantiation jsnum :: "{plus, minus, uminus, times, inverse, abs}"
begin

fun uminus_jsnum :: "jsnum \<Rightarrow> jsnum" where
  "uminus_jsnum (Num a) = Num (- a)"
| "uminus_jsnum PosInf = NegInf"
| "uminus_jsnum NegInf = PosInf"
| "uminus_jsnum NaN = NaN"

fun plus_jsnum :: "jsnum \<Rightarrow> jsnum \<Rightarrow> jsnum" where
  "plus_jsnum (Num a) (Num b) = Num (a + b)"
| "plus_jsnum NaN y = NaN"
| "plus_jsnum x NaN = NaN"
| "plus_jsnum PosInf NegInf = NaN"
| "plus_jsnum NegInf PosInf = NaN"
| "plus_jsnum PosInf y = PosInf"
| "plus_jsnum x PosInf = PosInf"
| "plus_jsnum NegInf y = NegInf"
| "plus_jsnum x NegInf = NegInf"

definition minus_jsnum :: "jsnum \<Rightarrow> jsnum \<Rightarrow> jsnum" where
  "minus_jsnum x y = x + (- y)"

fun times_jsnum :: "jsnum \<Rightarrow> jsnum \<Rightarrow> jsnum" where
  "times_jsnum (Num a) (Num b) = Num (a * b)"
| "times_jsnum NaN y = NaN"
| "times_jsnum x NaN = NaN"
| "times_jsnum x y = signed_inf (signum x * signum y)"

fun divide_jsnum :: "jsnum \<Rightarrow> jsnum \<Rightarrow> jsnum" where
  "divide_jsnum (Num a) (Num b) = (if b = 0 then signed_inf a else Num (a / b))"
| "divide_jsnum NaN y = NaN"
| "divide_jsnum x NaN = NaN"
| "divide_jsnum (Num a) y = Num 0"
| "divide_jsnum x (Num b) = signed_inf (signum x * (if b < 0 then - 1 else 1))"
| "divide_jsnum x y = NaN"

definition inverse_jsnum :: "jsnum \<Rightarrow> jsnum" where
  "inverse_jsnum x = divide (Num 1) x"

fun abs_jsnum :: "jsnum \<Rightarrow> jsnum" where
  "abs_jsnum (Num a) = Num \<bar>a\<bar>"
| "abs_jsnum PosInf = PosInf"
| "abs_jsnum NegInf = PosInf"
| "abs_jsnum NaN = NaN"

instance ..

end

text \<open>The comparisons \<^verbatim>\<open><\<close>, \<^verbatim>\<open>>\<close> and \<^verbatim>\<open>===\<close>: each is false when an operand is NaN.\<close>

fun js_lt :: "jsnum \<Rightarrow> jsnum \<Rightarrow> bool" where
  "js_lt (Num a) (Num b) = (a < b)"
| "js_lt NaN y = False"
| "js_lt x NaN = False"
| "js_lt x NegInf = False"
| "js_lt PosInf y = False"
| "js_lt NegInf y = True"
| "js_lt x PosInf = True"

definition js_gt :: "jsnum \<Rightarrow> jsnum \<Rightarrow> bool" where
  "js_gt x y = js_lt y x"

definition js_seq :: "jsnum \<Rightarrow> jsnum \<Rightarrow> bool" where
  "js_seq x y = (x \<noteq> NaN \<and> y \<noteq> NaN \<and> x = y)"

text \<open>\<^verbatim>\<open>Math.min\<close>, \<^verbatim>\<open>Math.max\<close> and \<^verbatim>\<open>Math.sign\<close>; the truth value of a number in a
  condition; and \<^verbatim>\<open>~~x\<close>, the conversion to a signed 32-bit integer (truncation towards
  zero, then wrap-around modulo \<open>2^32\<close>; zero for the infinities and NaN).\<close>

definition Math_min :: "jsnum \<Rightarrow> jsnum \<Rightarrow> jsnum" where
  "Math_min x y = (if x = NaN \<or> y = NaN then NaN else if js_lt y x then y else x)"

definition Math_max :: "jsnum \<Rightarrow> jsnum \<Rightarrow> jsnum" where
  "Math_max x y = (if x = NaN \<or> y = NaN then NaN else if js_lt x y then y else x)"

fun Math_sign :: "jsnum \<Rightarrow> jsnum" where
  "Math_sign (Num a) = Num (sgn a)"
| "Math_sign PosInf = Num 1"
| "Math_sign NegInf = Num (- 1)"
| "Math_sign NaN = NaN"

fun truthy :: "jsnum \<Rightarrow> bool" where
  "truthy (Num a) = (a \<noteq> 0)"
| "truthy PosInf = True"
| "truthy NegInf = True"
| "truthy NaN = False"

definition trunc :: "real \<Rightarrow> int" where
  "trunc a = (if 0 \<le> a then \<lfloor>a\<rfloor> else \<lceil>a\<rceil>)"

definition wrap32 :: "int \<Rightarrow> int" where
  "wrap32 n = (n + 2147483648) mod 4294967296 - 2147483648"

fun toInt32 :: "jsnum \<Rightarrow> jsnum" where
  "toInt32 (Num a) = Num (of_int (wrap32 (trunc a)))"
| "toInt32 PosInf = Num 0"
| "toInt32 NegInf = Num 0"
| "toInt32 NaN = Num 0"

section \<open>Geometry and the per-object cache\<close>

text \<open>
  A \<^verbatim>\<open>{X, Y}\<close> pair, the fields of a \<^verbatim>\<open>DOMRect\<close> that the source reads, the
  bounds object of \<^verbatim>\<open>getBoundsRelativeTo\<close>, and the transformation matrix.
  \<^verbatim>\<open>parseMatrix\<close> returns an array of exactly six numbers on both of its paths, so
  the matrix is a record of its six entries.
\<close>

record point =
  X :: jsnum
  Y :: jsnum

record domrect =
  left :: jsnum
  top :: jsnum
  right :: jsnum
  bottom :: jsnum
  width :: jsnum
  height :: jsnum

record bounds =
  minX :: jsnum
  minY :: jsnum
  maxX :: jsnum
  maxY :: jsnum

record matrix =
  m0 :: jsnum
  m1 :: jsnum
  m2 :: jsnum
  m3 :: jsnum
  m4 :: jsnum
  m5 :: jsnum

text \<open>The object \<^verbatim>\<open>__draggable_cache\<close> attached to an element.\<close>

record cache =
  margin :: point
  rect :: domrect
  initialCursorPosRelativeToObject :: point
  objectBounds :: bounds
  time :: int
  velocity :: point
  hasMoved :: bool
  position :: point
  matrix :: matrix

text \<open>\<^verbatim>\<open>getBoundsRelativeTo(object, to)\<close>, on the caches of the two elements.\<close>

definition getBoundsRelativeTo :: "cache \<Rightarrow> cache \<Rightarrow> bounds" where
  "getBoundsRelativeTo objectCache toCache =
    (let objectMargin = margin objectCache;
         objectRect = rect objectCache;
         toRect = rect toCache;
         b0 = \<lparr> minX = Num 0 + X objectMargin,
                minY = Num 0 + Y objectMargin,
                maxX = (right toRect - left toRect) - (right objectRect - left objectRect) - X objectMargin,
                maxY = (bottom toRect - top toRect) - (bottom objectRect - top objectRect) - X objectMargin \<rparr>;
         b1 = (if js_gt (width objectRect) (width toRect)
               then b0 \<lparr> minX := - (width objectRect - width toRect), maxX := Num 0 \<rparr>
               else b0);
         b2 = (if js_gt (height objectRect) (height toRect)
               then b1 \<lparr> minY := - (height objectRect - height toRect), maxY := Num 0 \<rparr>
               else b1)
     in b2)"

text \<open>A rectangle as \<^verbatim>\<open>getBoundingClientRect\<close> returns it: finite, with
  \<open>width = right - left\<close> and \<open>height = bottom - top\<close>.\<close>

definition mkrect :: "real \<Rightarrow> real \<Rightarrow> real \<Rightarrow> real \<Rightarrow> domrect" where
  "mkrect l t w h = \<lparr> left = Num l, top = Num t, right = Num (l + w), bottom = Num (t + h),
                      width = Num w, height = Num h \<rparr>"

section \<open>The Draggable instance\<close>

text \<open>
  The keys of \<^verbatim>\<open>this.events\<close> are fixed by the constructor and never change, so an
  event type is a datatype; \<open>event_of\<close> reads the name a caller passes, and a name that is
  not a key makes \<^verbatim>\<open>on\<close>, \<^verbatim>\<open>off\<close>, \<^verbatim>\<open>once\<close> and \<^verbatim>\<open>trigger\<close> throw.
\<close>

datatype event = DragEnd | DragStart | DragMove | DecelerationStart | DecelerationEnd
  | Decelerate | Stop

definition event_of :: "string \<Rightarrow> event option" where
  "event_of name =
    (if name = ''drag-end'' then Some DragEnd
     else if name = ''drag-start'' then Some DragStart
     else if name = ''drag-move'' then Some DragMove
     else if name = ''deceleration-start'' then Some DecelerationStart
     else if name = ''deceleration-end'' then Some DecelerationEnd
     else if name = ''decelerate'' then Some Decelerate
     else if name = ''stop'' then Some Stop
     else None)"

datatype error = InvalidEventType

text \<open>
  A listener is a function object, compared by reference.  \<open>Fn f\<close> is a function of the
  caller, known by its identity \<open>f\<close>; all the model knows of its body is that it was
  called, which the instance records in \<open>calls\<close>.  \<open>Closure c ev cb\<close> is the function
  that \<^verbatim>\<open>once(ev, cb)\<close> builds: \<open>c\<close> is its identity, fresh at each call of
  \<^verbatim>\<open>once\<close>, and \<open>ev\<close> and \<open>cb\<close> are the variables it closes over.
\<close>

datatype handler = Fn nat | Closure nat event handler

text \<open>The arguments that the instance passes to listeners; elements are known by an
  identity (a number).\<close>

datatype arg = ObjectArg nat | PositionArg point | CacheArg cache | StackArg "nat list"

record settings =
  edgeFriction :: jsnum
  friction :: jsnum
  bounceFriction :: jsnum
  deceleration :: bool

text \<open>The properties that the source attaches to an element.\<close>

record element =
  draggable_enabled :: bool
  draggable_mouseIsDown :: bool
  draggable_cache :: cache

text \<open>
  The instance, together with the elements it has touched (\<open>elements\<close>, a store from
  identities to their properties) and two records of what it did: \<open>calls\<close>, the calls
  of callers' functions with their arguments, and \<open>emitted\<close>, the calls of
  \<^verbatim>\<open>trigger\<close>.  \<^verbatim>\<open>stackLength\<close> is not set by the constructor: \<open>None\<close> stands for
  \<^verbatim>\<open>undefined\<close> and for the NaN that arithmetic on it gives (both compare false with
  \<^verbatim>\<open><= 0\<close>).  \<open>animationLoopRunning\<close> is true exactly when a frame callback is
  requested.
\<close>

record draggable =
  settings :: settings
  container :: element
  events :: "event \<Rightarrow> handler list"
  currentObject :: "nat option"
  decelerationStack :: "nat list"
  stackLength :: "int option"
  animationLoopRunning :: bool
  elements :: "nat \<Rightarrow> element"
  nextClosure :: nat
  calls :: "(nat \<times> arg list) list"
  emitted :: "(event \<times> arg list) list"

subsection \<open>Arrays\<close>

text \<open>\<^verbatim>\<open>xs.indexOf(x)\<close> (\<open>None\<close> for \<open>-1\<close>) and \<^verbatim>\<open>xs.splice(i, 1)\<close>, which removes
  nothing when \<open>i\<close> is not an index of \<open>xs\<close>.\<close>

fun indexOf :: "'a list \<Rightarrow> 'a \<Rightarrow> nat option" where
  "indexOf [] x = None"
| "indexOf (y # ys) x = (if y = x then Some 0 else map_option Suc (indexOf ys x))"

definition splice1 :: "'a list \<Rightarrow> nat \<Rightarrow> 'a list" where
  "splice1 xs i = take i xs @ drop (Suc i) xs"

subsection \<open>The event bus\<close>

definition on_event :: "event \<Rightarrow> handler \<Rightarrow> draggable \<Rightarrow> draggable" where
  "on_event ev callback s =
    (if indexOf (events s ev) callback \<noteq> None then s
     else s \<lparr> events := (events s)(ev := events s ev @ [callback]) \<rparr>)"

definition off_event :: "event \<Rightarrow> handler \<Rightarrow> draggable \<Rightarrow> draggable" where
  "off_event ev callback s =
    (case indexOf (events s ev) callback of
       None \<Rightarrow> s
     | Some callbackIndex \<Rightarrow>
         s \<lparr> events := (events s)(ev := splice1 (events s ev) callbackIndex) \<rparr>)"

text \<open>Calling a listener.  The closure of \<^verbatim>\<open>once\<close> calls \<^verbatim>\<open>callback\<close> and then
  \<^verbatim>\<open>this.off(event, callback)\<close>, with the callback it wraps.\<close>

fun invoke :: "handler \<Rightarrow> arg list \<Rightarrow> draggable \<Rightarrow> draggable" where
  "invoke (Fn f) args s = s \<lparr> calls := calls s @ [(f, args)] \<rparr>"
| "invoke (Closure c ev callback) args s = off_event ev callback (invoke callback args s)"

text \<open>
  \<^verbatim>\<open>this.events[event].forEach(...)\<close>: the visit of the indices \<open>k, k + 1, ...\<close>, \<open>n\<close>
  of them, where the length was read before the first call and each index is looked
  up in the array as it is when its turn comes.
\<close>

fun forEach_listener :: "event \<Rightarrow> arg list \<Rightarrow> nat \<Rightarrow> nat \<Rightarrow> draggable \<Rightarrow> draggable" where
  "forEach_listener ev args k 0 s = s"
| "forEach_listener ev args k (Suc n) s =
    forEach_listener ev args (Suc k) n
      (if k < length (events s ev) then invoke (events s ev ! k) args s else s)"

definition trigger_event :: "event \<Rightarrow> arg list \<Rightarrow> draggable \<Rightarrow> draggable" where
  "trigger_event ev args s =
    forEach_listener ev args 0 (length (events s ev)) (s \<lparr> emitted := emitted s @ [(ev, args)] \<rparr>)"

text \<open>The four methods as a caller sees them, with the event type as a string.\<close>

definition on :: "string \<Rightarrow> handler \<Rightarrow> draggable \<Rightarrow> error + draggable" where
  "on name callback s =
    (case event_of name of None \<Rightarrow> Inl InvalidEventType | Some ev \<Rightarrow> Inr (on_event ev callback s))"

definition off :: "string \<Rightarrow> handler \<Rightarrow> draggable \<Rightarrow> error + draggable" where
  "off name callback s =
    (case event_of name of None \<Rightarrow> Inl InvalidEventType | Some ev \<Rightarrow> Inr (off_event ev callback s))"

definition once :: "string \<Rightarrow> handler \<Rightarrow> draggable \<Rightarrow> error + handler \<times> draggable" where
  "once name callback s =
    (case event_of name of
       None \<Rightarrow> Inl InvalidEventType
     | Some ev \<Rightarrow>
         (let closure = Closure (nextClosure s) ev callback
          in Inr (closure, on_event ev closure (s \<lparr> nextClosure := Suc (nextClosure s) \<rparr>))))"

definition trigger :: "string \<Rightarrow> arg list \<Rightarrow> draggable \<Rightarrow> error + draggable" where
  "trigger name args s =
    (case event_of name of None \<Rightarrow> Inl InvalidEventType | Some ev \<Rightarrow> Inr (trigger_event ev args s))"


subsection \<open>Static helpers\<close>

text \<open>
  What the document answers when \<^verbatim>\<open>onMouseDown\<close> reads it: the bounding rectangles
  and computed margins (\<^verbatim>\<open>parseInt\<close> of \<^verbatim>\<open>marginLeft\<close> and \<^verbatim>\<open>marginTop\<close>) of the
  target and of the container, and the target's computed transform as
  \<^verbatim>\<open>parseMatrix\<close> returns it.  \<^verbatim>\<open>Date.now()\<close> is a parameter of each entry point.
\<close>

record mouse_event =
  clientX :: jsnum
  clientY :: jsnum
  currentTarget :: nat

record dom =
  objectRect :: domrect
  objectMargin :: point
  containerRect :: domrect
  containerMargin :: point
  objectTransform :: matrix

definition enabled :: "element \<Rightarrow> bool" where
  "enabled object = draggable_enabled object"

definition getCache :: "element \<Rightarrow> cache" where
  "getCache object = draggable_cache object"

definition cacheProperties :: "point \<Rightarrow> domrect \<Rightarrow> element \<Rightarrow> element" where
  "cacheProperties styleMargin boundingRect object =
    object \<lparr> draggable_cache := (draggable_cache object) \<lparr> margin := styleMargin, rect := boundingRect \<rparr> \<rparr>"

definition getCursorPositionRelativeTo :: "mouse_event \<Rightarrow> element \<Rightarrow> point" where
  "getCursorPositionRelativeTo ev to =
    \<lparr> X = clientX ev - left (rect (getCache to)), Y = clientY ev - top (rect (getCache to)) \<rparr>"

definition setObjectMatrix :: "cache \<Rightarrow> point \<Rightarrow> cache" where
  "setObjectMatrix c pos =
    c \<lparr> matrix := (matrix c)
        \<lparr> m4 := X pos - X (margin c) - ((Num 1 - m0 (matrix c)) * width (rect c)),
          m5 := Y pos - Y (margin c) - ((Num 1 - m3 (matrix c)) * height (rect c)) \<rparr> \<rparr>"

definition setCache :: "nat \<Rightarrow> cache \<Rightarrow> draggable \<Rightarrow> draggable" where
  "setCache object c s =
    s \<lparr> elements := (elements s)(object := (elements s object) \<lparr> draggable_cache := c \<rparr>) \<rparr>"

subsection \<open>Pointer down\<close>

definition onMouseDown :: "mouse_event \<Rightarrow> dom \<Rightarrow> int \<Rightarrow> draggable \<Rightarrow> draggable" where
  "onMouseDown ev d now s =
    (let object = currentTarget ev in
     if \<not> enabled (elements s object) then s
     else
       let obj1 = cacheProperties (objectMargin d) (objectRect d) (elements s object);
           cont1 = cacheProperties (containerMargin d) (containerRect d) (container s);
           cont2 = cacheProperties (containerMargin d) (containerRect d) cont1;
           cursorPosRelativeToContainer = getCursorPositionRelativeTo ev cont2;
           cursorPosRelativeToObject = getCursorPositionRelativeTo ev obj1;
           pos = \<lparr> X = X cursorPosRelativeToContainer - X cursorPosRelativeToObject,
                   Y = Y cursorPosRelativeToContainer - Y cursorPosRelativeToObject \<rparr>;
           c = (draggable_cache obj1)
                 \<lparr> initialCursorPosRelativeToObject := cursorPosRelativeToObject,
                   objectBounds := getBoundsRelativeTo (draggable_cache obj1) (draggable_cache cont2),
                   time := now,
                   velocity := \<lparr> X = Num 0, Y = Num 0 \<rparr>,
                   hasMoved := False,
                   position := pos,
                   matrix := objectTransform d \<rparr>;
           s1 = s \<lparr> container := cont2,
                    elements := (elements s)(object := obj1 \<lparr> draggable_cache := c \<rparr>) \<rparr>;
           s2 = (case indexOf (decelerationStack s1) object of
                   None \<Rightarrow> s1
                 | Some stackIndex \<Rightarrow>
                     s1 \<lparr> decelerationStack := splice1 (decelerationStack s1) stackIndex,
                          stackLength := map_option (\<lambda>n. n - 1) (stackLength s1) \<rparr>);
           s3 = s2 \<lparr> elements := (elements s2)(object := (elements s2 object) \<lparr> draggable_mouseIsDown := True \<rparr>),
                    currentObject := Some object \<rparr>
       in trigger_event DragStart [ObjectArg object, PositionArg pos] s3)"

subsection \<open>Pointer move\<close>

text \<open>One axis of the loop over \<^verbatim>\<open>[['X', 'width'], ['Y', 'height']]\<close>: the raw position,
  then the check against \<^verbatim>\<open>min\<close> and the check against \<^verbatim>\<open>max\<close>, in this order, the
  second on the position that the first has left.\<close>

definition edgeDamp :: "settings \<Rightarrow> jsnum \<Rightarrow> jsnum \<Rightarrow> jsnum" where
  "edgeDamp st p b = b + ((p - b) * (Num 1 - edgeFriction st))"

definition dragAxis :: "settings \<Rightarrow> jsnum \<Rightarrow> jsnum \<Rightarrow> jsnum \<Rightarrow> jsnum \<Rightarrow> jsnum" where
  "dragAxis st cursorPos grabPos mn mx =
    (let p0 = cursorPos - grabPos;
         p1 = (if js_seq (Math_min p0 mn) p0 then edgeDamp st p0 mn else p0);
         p2 = (if js_seq (Math_max p1 mx) p1 then edgeDamp st p1 mx else p1)
     in p2)"

definition onMouseMove :: "mouse_event \<Rightarrow> int \<Rightarrow> draggable \<Rightarrow> draggable" where
  "onMouseMove ev now s =
    (case currentObject s of
       None \<Rightarrow> s
     | Some object \<Rightarrow>
         if draggable_mouseIsDown (elements s object) then
           let c = draggable_cache (elements s object);
               cursorPosRelativeToContainer = getCursorPositionRelativeTo ev (container s);
               cursorPosRelativeToObject = initialCursorPosRelativeToObject c;
               ob = objectBounds c;
               pos = \<lparr> X = dragAxis (settings s) (X cursorPosRelativeToContainer)
                            (X cursorPosRelativeToObject) (minX ob) (maxX ob),
                       Y = dragAxis (settings s) (Y cursorPosRelativeToContainer)
                            (Y cursorPosRelativeToObject) (minY ob) (maxY ob) \<rparr>;
               deltaTime = Num (of_int (now - time c));
               c1 = c \<lparr> velocity := \<lparr> X = (X pos - X (position c)) / deltaTime,
                                       Y = (Y pos - Y (position c)) / deltaTime \<rparr>,
                        position := pos, time := now, hasMoved := True \<rparr>;
               c2 = setObjectMatrix c1 pos
           in trigger_event DragMove [ObjectArg object, CacheArg c2] (setCache object c2 s)
         else s)"

subsection \<open>Deceleration\<close>

definition truthy_length :: "int option \<Rightarrow> bool" where
  "truthy_length n = (case n of None \<Rightarrow> False | Some k \<Rightarrow> k \<noteq> 0)"

definition animateDeceleration :: "nat \<Rightarrow> int \<Rightarrow> draggable \<Rightarrow> draggable" where
  "animateDeceleration object now s =
    (let c = draggable_cache (elements s object);
         s1 = trigger_event DecelerationStart [ObjectArg object, PositionArg (position c)] s;
         stack = decelerationStack s1 @ [object];
         s2 = s1 \<lparr> decelerationStack := stack, stackLength := Some (int (length stack)) \<rparr>;
         s3 = setCache object ((draggable_cache (elements s2 object)) \<lparr> time := now \<rparr>) s2
     in if \<not> animationLoopRunning s3 \<and> truthy_length (stackLength s3)
        then s3 \<lparr> animationLoopRunning := True \<rparr>
        else s3)"

text \<open>One axis of the loop over \<^verbatim>\<open>['X', 'Y']\<close> in \<^verbatim>\<open>progressAnimations\<close>: the new
  velocity and position of the axis.\<close>

definition decelerateAxis ::
  "settings \<Rightarrow> jsnum \<Rightarrow> jsnum \<Rightarrow> jsnum \<Rightarrow> jsnum \<Rightarrow> jsnum \<Rightarrow> jsnum \<times> jsnum" where
  "decelerateAxis st deltaTime cv cp mn mx =
    (let v0 = cv * (Num 1 - (deltaTime / Num 1000 * friction st));
         p0 = (if truthy v0 then cp + (v0 * deltaTime) else cp);
         (v1, p1) = (if js_seq (Math_min p0 mn) p0 \<and> js_seq (Math_sign v0) (Math_min (Num 1) (Num (- 1)))
                     then (- (v0 * (Num 1 - bounceFriction st)), mn)
                     else (v0, p0));
         (v2, p2) = (if js_seq (Math_max p1 mx) p1 \<and> js_seq (Math_sign v1) (Math_max (Num 1) (Num (- 1)))
                     then (- (v1 * (Num 1 - bounceFriction st)), mx)
                     else (v1, p1))
     in (v2, p2))"

text \<open>The body of \<^verbatim>\<open>stack.forEach((object, index) => ...)\<close>, in two parts.
  \<open>decelerateObject\<close> is what the body computes from the cache of the object: the new
  velocity, the new position (after \<^verbatim>\<open>~~\<close> when the object stops) and whether the
  object stops.  \<open>progressObject\<close> is the body, with its events and its writes; the
  second component of its argument and result is \<^verbatim>\<open>toRemoveFromStack\<close>.\<close>

definition decelerateObject :: "settings \<Rightarrow> int \<Rightarrow> cache \<Rightarrow> point \<times> point \<times> bool" where
  "decelerateObject st now c =
    (let deltaTime = Num (of_int (now - time c));
         ob = objectBounds c;
         (vx, px) = decelerateAxis st deltaTime (X (velocity c)) (X (position c)) (minX ob) (maxX ob);
         (vy, py) = decelerateAxis st deltaTime (Y (velocity c)) (Y (position c)) (minY ob) (maxY ob);
         stopped = (js_lt (abs vx) (Num 0.001) \<and> js_lt (abs vy) (Num 0.001));
         pos = (if stopped then \<lparr> X = toInt32 px, Y = toInt32 py \<rparr> else \<lparr> X = px, Y = py \<rparr>)
     in (\<lparr> X = vx, Y = vy \<rparr>, pos, stopped))"

definition progressObject :: "int \<Rightarrow> nat \<Rightarrow> nat \<Rightarrow> draggable \<times> nat list \<Rightarrow> draggable \<times> nat list" where
  "progressObject now object index acc =
    (let s = fst acc;
         toRemoveFromStack = snd acc;
         (vel, pos, stopped) = decelerateObject (settings s) now (draggable_cache (elements s object));
         s1 = (if stopped
               then trigger_event Stop [ObjectArg object, PositionArg pos]
                      (trigger_event DecelerationEnd [ObjectArg object, PositionArg pos] s)
               else s);
         c1 = (setObjectMatrix (draggable_cache (elements s1 object)) pos)
                \<lparr> time := now, position := pos, velocity := vel \<rparr>
     in (setCache object c1 s1, if stopped then toRemoveFromStack @ [index] else toRemoveFromStack))"

text \<open>\<^verbatim>\<open>stack.forEach\<close>: no call of the body changes the stack, so the elements
  visited are those of the stack as it was, each with its index.\<close>

fun forEach_object :: "int \<Rightarrow> nat list \<Rightarrow> nat \<Rightarrow> draggable \<times> nat list \<Rightarrow> draggable \<times> nat list" where
  "forEach_object now [] index acc = acc"
| "forEach_object now (object # rest) index acc =
    forEach_object now rest (Suc index) (progressObject now object index acc)"

definition progressAnimations :: "int \<Rightarrow> draggable \<Rightarrow> draggable" where
  "progressAnimations now s =
    (let (s1, toRemoveFromStack) = forEach_object now (decelerationStack s) 0 (s, []);
         s2 = s1 \<lparr> decelerationStack :=
                     fold (\<lambda>index stack. splice1 stack index) toRemoveFromStack (decelerationStack s1) \<rparr>;
         s3 = s2 \<lparr> stackLength := map_option (\<lambda>n. n - int (length toRemoveFromStack)) (stackLength s2) \<rparr>;
         s4 = (if (case stackLength s3 of None \<Rightarrow> False | Some n \<Rightarrow> n \<le> 0)
               then s3 \<lparr> stackLength := Some 0, animationLoopRunning := False \<rparr>
               else s3)
     in trigger_event Decelerate [StackArg (decelerationStack s4)] s4)"

text \<open>The frame loop: the host calls \<^verbatim>\<open>progressAnimations\<close> at each of the given
  times, as long as a frame is requested.\<close>

fun frames :: "int list \<Rightarrow> draggable \<Rightarrow> draggable" where
  "frames [] s = s"
| "frames (now # later) s =
    (if animationLoopRunning s then frames later (progressAnimations now s) else s)"

subsection \<open>Pointer up\<close>

text \<open>One axis of the loop over \<^verbatim>\<open>['X', 'Y']\<close> in \<^verbatim>\<open>onMouseUp\<close>: the velocity of the
  axis after the checks against \<^verbatim>\<open>min\<close> and \<^verbatim>\<open>max\<close>.\<close>

definition releaseAxis :: "jsnum \<Rightarrow> jsnum \<Rightarrow> jsnum \<Rightarrow> jsnum \<Rightarrow> jsnum" where
  "releaseAxis p mn mx v =
    (let v1 = (if js_seq (Math_min p mn) p then - ((p - mn) / Num 100) else v);
         v2 = (if js_seq (Math_max p mx) p then - ((p - mx) / Num 100) else v1)
     in v2)"

definition onMouseUp :: "int \<Rightarrow> draggable \<Rightarrow> draggable" where
  "onMouseUp now s =
    (case currentObject s of
       None \<Rightarrow> s
     | Some object \<Rightarrow>
         let c = draggable_cache (elements s object);
             deltaTime = Num (of_int (now - time c));
             ob = objectBounds c;
             pos = position c;
             v0 = (if js_gt deltaTime (Num 25) \<and> hasMoved c
                   then \<lparr> X = Num 0, Y = Num 0 \<rparr>
                   else velocity c);
             v1 = \<lparr> X = releaseAxis (X pos) (minX ob) (maxX ob) (X v0),
                    Y = releaseAxis (Y pos) (minY ob) (maxY ob) (Y v0) \<rparr>;
             s1 = setCache object (c \<lparr> velocity := v1 \<rparr>) s;
             s2 = trigger_event DragEnd [ObjectArg object, PositionArg pos] s1;
             v2 = velocity (draggable_cache (elements s2 object));
             s3 = (if deceleration (settings s2) \<and> (js_gt (abs (X v2)) (Num 0) \<or> js_gt (abs (Y v2)) (Num 0))
                   then animateDeceleration object now s2
                   else trigger_event Stop [ObjectArg object, PositionArg pos] s2)
         in s3 \<lparr> currentObject := None \<rparr>)"

subsection \<open>The constructor\<close>

text \<open>The default settings, and the instance as the constructor leaves it.  An element
  has no cache before its first pointer-down; every read of a cache in the source comes
  after \<^verbatim>\<open>onMouseDown\<close> has filled it, so the value that stands for the missing cache
  is never read.\<close>

definition defaultSettings :: settings where
  "defaultSettings = \<lparr> edgeFriction = Num 0.75, friction = Num 1, bounceFriction = Num 0.5,
                        deceleration = True \<rparr>"

definition noCache :: cache where
  "noCache =
    \<lparr> margin = \<lparr> X = Num 0, Y = Num 0 \<rparr>,
      rect = \<lparr> left = Num 0, top = Num 0, right = Num 0, bottom = Num 0, width = Num 0, height = Num 0 \<rparr>,
      initialCursorPosRelativeToObject = \<lparr> X = Num 0, Y = Num 0 \<rparr>,
      objectBounds = \<lparr> minX = Num 0, minY = Num 0, maxX = Num 0, maxY = Num 0 \<rparr>,
      time = 0,
      velocity = \<lparr> X = Num 0, Y = Num 0 \<rparr>,
      hasMoved = False,
      position = \<lparr> X = Num 0, Y = Num 0 \<rparr>,
      matrix = \<lparr> m0 = Num 1, m1 = Num 0, m2 = Num 0, m3 = Num 1, m4 = Num 0, m5 = Num 0 \<rparr> \<rparr>"

definition constructor :: "settings \<Rightarrow> nat list \<Rightarrow> draggable" where
  "constructor st objects =
    \<lparr> settings = st,
      container = \<lparr> draggable_enabled = False, draggable_mouseIsDown = False, draggable_cache = noCache \<rparr>,
      events = (\<lambda>ev. []),
      currentObject = None,
      decelerationStack = [],
      stackLength = None,
      animationLoopRunning = False,
      elements = (\<lambda>object. \<lparr> draggable_enabled = (object \<in> set objects),
                               draggable_mouseIsDown = False, draggable_cache = noCache \<rparr>),
      nextClosure = 0,
      calls = [],
      emitted = [] \<rparr>"


section \<open>Scenario helpers\<close>


definition geometry :: "point \<Rightarrow> domrect \<Rightarrow> cache" where
  "geometry m r = noCache \<lparr> margin := m, rect := r \<rparr>"

text \<open>The source names an axis by \<^verbatim>\<open>'X'\<close> or \<^verbatim>\<open>'Y'\<close> and reads
  \<^verbatim>\<open>position[axis]\<close>, \<^verbatim>\<open>objectBounds['min' + axis]\<close> and
  \<^verbatim>\<open>objectBounds['max' + axis]\<close>; the cursor's coordinate of an axis is
  \<^verbatim>\<open>clientX\<close> or \<^verbatim>\<open>clientY\<close>, and a rectangle starts at \<^verbatim>\<open>left\<close> or \<^verbatim>\<open>top\<close>.\<close>

datatype axis = AxisX | AxisY

fun coord :: "axis \<Rightarrow> point \<Rightarrow> jsnum" where
  "coord AxisX p = X p"
| "coord AxisY p = Y p"

fun lower :: "axis \<Rightarrow> bounds \<Rightarrow> jsnum" where
  "lower AxisX b = minX b"
| "lower AxisY b = minY b"

fun upper :: "axis \<Rightarrow> bounds \<Rightarrow> jsnum" where
  "upper AxisX b = maxX b"
| "upper AxisY b = maxY b"

fun client :: "axis \<Rightarrow> mouse_event \<Rightarrow> jsnum" where
  "client AxisX ev = clientX ev"
| "client AxisY ev = clientY ev"

fun origin :: "axis \<Rightarrow> domrect \<Rightarrow> jsnum" where
  "origin AxisX r = left r"
| "origin AxisY r = top r"

text \<open>
  The scenario of the specification: a container of 500 by 300 at the origin of the
  page, holding one draggable object (element 0) of 100 by 50 at its top left corner,
  without margin or transform; the default settings.  \<open>grabbed\<close> is the instance after
  a pointer-down on the object at the point (20, 10), at time 1000.
\<close>

definition pointerAt :: "real \<Rightarrow> real \<Rightarrow> nat \<Rightarrow> mouse_event" where
  "pointerAt x y object = \<lparr> clientX = Num x, clientY = Num y, currentTarget = object \<rparr>"

definition page :: dom where
  "page = \<lparr> objectRect = mkrect 0 0 100 50,
            objectMargin = \<lparr> X = Num 0, Y = Num 0 \<rparr>,
            containerRect = mkrect 0 0 500 300,
            containerMargin = \<lparr> X = Num 0, Y = Num 0 \<rparr>,
            objectTransform = \<lparr> m0 = Num 1, m1 = Num 0, m2 = Num 0, m3 = Num 1, m4 = Num 0, m5 = Num 0 \<rparr> \<rparr>"

definition idle :: draggable where
  "idle = constructor defaultSettings [0]"

definition grabbed :: draggable where
  "grabbed = onMouseDown (pointerAt 20 10 0) page 1000 idle"

text \<open>\<open>dragged\<close>: the pointer has moved by 50 to the right, 100 ms after the pointer-down.
  \<open>released\<close>: the pointer is up 10 ms later; the object coasts with the velocity
  \<^verbatim>\<open>{X: 0.5, Y: 0}\<close>.\<close>

definition dragged :: draggable where
  "dragged = onMouseMove (pointerAt 70 10 0) 1100 grabbed"

definition released :: draggable where
  "released = onMouseUp 1110 dragged"

text \<open>\<open>threeCoasting\<close>: three objects coast, in the stack in the order 0, 1, 2, since time
  1110; the objects 0 and 1 are about to stop (1/2000 px/ms), the object 2 moves at
  1/2 px/ms.\<close>

definition coasting :: "real \<Rightarrow> cache" where
  "coasting v =
    noCache \<lparr> rect := mkrect 0 0 100 50,
              objectBounds := \<lparr> minX = Num 0, minY = Num 0, maxX = Num 400, maxY = Num 250 \<rparr>,
              time := 1110,
              velocity := \<lparr> X = Num v, Y = Num 0 \<rparr>,
              hasMoved := True,
              position := \<lparr> X = Num 50, Y = Num 0 \<rparr>,
              matrix := \<lparr> m0 = Num 1, m1 = Num 0, m2 = Num 0, m3 = Num 1, m4 = Num 50, m5 = Num 0 \<rparr> \<rparr>"

definition threeCoasting :: draggable where
  "threeCoasting =
    (setCache 2 (coasting (1 / 2)) (setCache 1 (coasting (1 / 2000)) (setCache 0 (coasting (1 / 2000))
       (constructor defaultSettings [0, 1, 2]))))
      \<lparr> decelerationStack := [0, 1, 2], stackLength := Some 3, animationLoopRunning := True \<rparr>"

text \<open>\<open>waiting\<close>: the idle instance after \<^verbatim>\<open>once('stop', h)\<close>, where \<open>h\<close> is the caller's
  function 7; the wrapper is the first closure that the instance has built.\<close>

definition waiting :: draggable where
  "waiting = on_event Stop (Closure 0 Stop (Fn 7)) (idle \<lparr> nextClosure := 1 \<rparr>)"

section \<open>The host\<close>

text \<open>
  What the host delivers to an instance: the three pointer events, each with the time
  it is handled at (and a pointer-down with what the document answers), and the frames
  it has been asked for.  A frame runs only while one is requested.
\<close>

datatype input =
    PointerDown mouse_event dom int
  | PointerMove mouse_event int
  | PointerUp int
  | Frame int

fun step :: "input \<Rightarrow> draggable \<Rightarrow> draggable" where
  "step (PointerDown ev d now) s = onMouseDown ev d now s"
| "step (PointerMove ev now) s = onMouseMove ev now s"
| "step (PointerUp now) s = onMouseUp now s"
| "step (Frame now) s = (if animationLoopRunning s then progressAnimations now s else s)"

definition run :: "input list \<Rightarrow> draggable \<Rightarrow> draggable" where
  "run inputs s = fold step inputs s"

section \<open>Arithmetic on finite numbers\<close>

lemma minus_Num [simp]: "Num a - Num b = Num (a - b)"
  by (simp add: minus_jsnum_def)

lemma js_gt_Num [simp]: "js_gt (Num a) (Num b) = (b < a)"
  by (simp add: js_gt_def)

lemma js_seq_Num [simp]: "js_seq (Num a) (Num b) = (a = b)"
  by (simp add: js_seq_def)

lemma Math_min_Num [simp]: "Math_min (Num a) (Num b) = Num (min a b)"
  by (simp add: Math_min_def min_def)

lemma Math_max_Num [simp]: "Math_max (Num a) (Num b) = Num (max a b)"
  by (simp add: Math_max_def max_def)

section \<open>What a listener cannot change\<close>

text \<open>Calling listeners changes the listener lists and the two records, and nothing
  else of the instance.\<close>

lemma off_event_frame [simp]:
  "settings (off_event ev cb s) = settings s"
  "container (off_event ev cb s) = container s"
  "currentObject (off_event ev cb s) = currentObject s"
  "decelerationStack (off_event ev cb s) = decelerationStack s"
  "stackLength (off_event ev cb s) = stackLength s"
  "animationLoopRunning (off_event ev cb s) = animationLoopRunning s"
  "elements (off_event ev cb s) = elements s"
  "emitted (off_event ev cb s) = emitted s"
  "calls (off_event ev cb s) = calls s"
  by (simp_all add: off_event_def split: option.splits)

lemma invoke_frame_all:
  "settings (invoke h args s) = settings s
 \<and> container (invoke h args s) = container s
 \<and> currentObject (invoke h args s) = currentObject s
 \<and> decelerationStack (invoke h args s) = decelerationStack s
 \<and> stackLength (invoke h args s) = stackLength s
 \<and> animationLoopRunning (invoke h args s) = animationLoopRunning s
 \<and> elements (invoke h args s) = elements s
 \<and> emitted (invoke h args s) = emitted s"
  by (induction h arbitrary: s) simp_all

lemma forEach_listener_frame_all:
  "settings (forEach_listener ev args k n s) = settings s
 \<and> container (forEach_listener ev args k n s) = container s
 \<and> currentObject (forEach_listener ev args k n s) = currentObject s
 \<and> decelerationStack (forEach_listener ev args k n s) = decelerationStack s
 \<and> stackLength (forEach_listener ev args k n s) = stackLength s
 \<and> animationLoopRunning (forEach_listener ev args k n s) = animationLoopRunning s
 \<and> elements (forEach_listener ev args k n s) = elements s
 \<and> emitted (forEach_listener ev args k n s) = emitted s"
  by (induction n arbitrary: k s) (simp_all add: invoke_frame_all)

lemma trigger_event_frame [simp]:
  "settings (trigger_event ev args s) = settings s"
  "container (trigger_event ev args s) = container s"
  "currentObject (trigger_event ev args s) = currentObject s"
  "decelerationStack (trigger_event ev args s) = decelerationStack s"
  "stackLength (trigger_event ev args s) = stackLength s"
  "animationLoopRunning (trigger_event ev args s) = animationLoopRunning s"
  "elements (trigger_event ev args s) = elements s"
  "emitted (trigger_event ev args s) = emitted s @ [(ev, args)]"
  by (simp_all add: trigger_event_def forEach_listener_frame_all)

lemma setCache_fields [simp]:
  "settings (setCache object c s) = settings s"
  "container (setCache object c s) = container s"
  "currentObject (setCache object c s) = currentObject s"
  "decelerationStack (setCache object c s) = decelerationStack s"
  "stackLength (setCache object c s) = stackLength s"
  "animationLoopRunning (setCache object c s) = animationLoopRunning s"
  "emitted (setCache object c s) = emitted s"
  "events (setCache object c s) = events s"
  "calls (setCache object c s) = calls s"
  "draggable_cache (elements (setCache object c s) object) = c"
  "object' \<noteq> object \<Longrightarrow> elements (setCache object c s) object' = elements s object'"
  by (simp_all add: setCache_def)

lemma setObjectMatrix_fields [simp]:
  "position (setObjectMatrix c pos) = position c"
  "velocity (setObjectMatrix c pos) = velocity c"
  "time (setObjectMatrix c pos) = time c"
  "objectBounds (setObjectMatrix c pos) = objectBounds c"
  "hasMoved (setObjectMatrix c pos) = hasMoved c"
  "margin (setObjectMatrix c pos) = margin c"
  "rect (setObjectMatrix c pos) = rect c"
  "initialCursorPosRelativeToObject (setObjectMatrix c pos) = initialCursorPosRelativeToObject c"
  by (simp_all add: setObjectMatrix_def)

lemma animateDeceleration_fields [simp]:
  "settings (animateDeceleration object now s) = settings s"
  "container (animateDeceleration object now s) = container s"
  "currentObject (animateDeceleration object now s) = currentObject s"
  "decelerationStack (animateDeceleration object now s) = decelerationStack s @ [object]"
  "stackLength (animateDeceleration object now s) = Some (int (length (decelerationStack s)) + 1)"
  "animationLoopRunning (animateDeceleration object now s)"
  "elements (animateDeceleration object now s) =
     (elements s)(object := (elements s object)
        \<lparr> draggable_cache := (draggable_cache (elements s object)) \<lparr> time := now \<rparr> \<rparr>)"
  "emitted (animateDeceleration object now s) =
     emitted s @ [(DecelerationStart, [ObjectArg object, PositionArg (position (draggable_cache (elements s object)))])]"
  by (simp_all add: animateDeceleration_def Let_def setCache_def truthy_length_def)

section \<open>The bounds of an object\<close>

text \<open>
  C3, as the source has it.  The source computes the lower bound of an axis as
  \<open>0 + margin\<close>, where the claim has \<open>0 - margin\<close>: with a margin of 10 on an object of
  100 by 50 in a container of 500 by 300, \<open>minX\<close> is 10 and not \<open>-10\<close>.
\<close>

theorem bounds_min_is_plus_margin:
  "minX (getBoundsRelativeTo (geometry \<lparr> X = Num 10, Y = Num 10 \<rparr> (mkrect 0 0 100 50))
                             (geometry \<lparr> X = Num 0, Y = Num 0 \<rparr> (mkrect 0 0 500 300))) = Num 10
   \<and> minX (getBoundsRelativeTo (geometry \<lparr> X = Num 10, Y = Num 10 \<rparr> (mkrect 0 0 100 50))
                               (geometry \<lparr> X = Num 0, Y = Num 0 \<rparr> (mkrect 0 0 500 300))) \<noteq> Num (0 - 10)"
  by (simp add: getBoundsRelativeTo_def geometry_def noCache_def mkrect_def)

text \<open>
  C3, amended.  For every object rectangle, container rectangle and margin: on an axis
  where the object's extent exceeds the container's, the bounds are
  \<open>min = -(objectExtent - containerExtent)\<close> and \<open>max = 0\<close>; on any other axis
  \<open>min = 0 + margin\<close> of that axis, and \<open>max = containerExtent - objectExtent - margin\<close>
  (stated for the horizontal axis, and for the vertical axis when the two margins are
  equal).
\<close>

theorem bounds_formula:
  assumes "margin oc = \<lparr> X = Num mX, Y = Num mY \<rparr>"
    and "rect oc = mkrect ol ot ow oh"
    and "rect cc = mkrect cl ct cw ch"
  shows "(if cw < ow
          then minX (getBoundsRelativeTo oc cc) = Num (- (ow - cw))
             \<and> maxX (getBoundsRelativeTo oc cc) = Num 0
          else minX (getBoundsRelativeTo oc cc) = Num (0 + mX)
             \<and> maxX (getBoundsRelativeTo oc cc) = Num (cw - ow - mX))
       \<and> (if ch < oh
          then minY (getBoundsRelativeTo oc cc) = Num (- (oh - ch))
             \<and> maxY (getBoundsRelativeTo oc cc) = Num 0
          else minY (getBoundsRelativeTo oc cc) = Num (0 + mY)
             \<and> (mX = mY \<longrightarrow> maxY (getBoundsRelativeTo oc cc) = Num (ch - oh - mY)))"
  using assms by (simp add: getBoundsRelativeTo_def mkrect_def Let_def)

theorem bounds_formula_witness:
  "minX (getBoundsRelativeTo (geometry \<lparr> X = Num 10, Y = Num 10 \<rparr> (mkrect 0 0 100 400))
                             (geometry \<lparr> X = Num 0, Y = Num 0 \<rparr> (mkrect 0 0 500 300))) = Num 10
   \<and> maxX (getBoundsRelativeTo (geometry \<lparr> X = Num 10, Y = Num 10 \<rparr> (mkrect 0 0 100 400))
                               (geometry \<lparr> X = Num 0, Y = Num 0 \<rparr> (mkrect 0 0 500 300))) = Num 390
   \<and> minY (getBoundsRelativeTo (geometry \<lparr> X = Num 10, Y = Num 10 \<rparr> (mkrect 0 0 100 400))
                               (geometry \<lparr> X = Num 0, Y = Num 0 \<rparr> (mkrect 0 0 500 300))) = Num (- 100)
   \<and> maxY (getBoundsRelativeTo (geometry \<lparr> X = Num 10, Y = Num 10 \<rparr> (mkrect 0 0 100 400))
                               (geometry \<lparr> X = Num 0, Y = Num 0 \<rparr> (mkrect 0 0 500 300))) = Num 0"
  using bounds_formula [of "geometry \<lparr> X = Num 10, Y = Num 10 \<rparr> (mkrect 0 0 100 400)" 10 10 0 0 100 400
                           "geometry \<lparr> X = Num 0, Y = Num 0 \<rparr> (mkrect 0 0 500 300)" 0 0 500 300]
  by (simp add: geometry_def noCache_def)




section \<open>The scenario\<close>

lemma grabbed_fields:
  "currentObject grabbed = Some 0"
  "draggable_mouseIsDown (elements grabbed 0)"
  "settings grabbed = defaultSettings"
  "rect (draggable_cache (container grabbed)) = mkrect 0 0 500 300"
  "draggable_cache (elements grabbed 0) =
     noCache \<lparr> rect := mkrect 0 0 100 50,
               initialCursorPosRelativeToObject := \<lparr> X = Num 20, Y = Num 10 \<rparr>,
               objectBounds := \<lparr> minX = Num 0, minY = Num 0, maxX = Num 400, maxY = Num 250 \<rparr>,
               time := 1000 \<rparr>"
  "decelerationStack grabbed = []"
  "stackLength grabbed = None"
  "animationLoopRunning grabbed = False"
  by (simp_all add: grabbed_def idle_def onMouseDown_def constructor_def page_def pointerAt_def
      enabled_def cacheProperties_def getCursorPositionRelativeTo_def getCache_def Let_def
      getBoundsRelativeTo_def mkrect_def noCache_def)

lemma dragged_fields:
  "currentObject dragged = Some 0"
  "draggable_mouseIsDown (elements dragged 0)"
  "settings dragged = defaultSettings"
  "draggable_cache (elements dragged 0) =
     noCache \<lparr> rect := mkrect 0 0 100 50,
               initialCursorPosRelativeToObject := \<lparr> X = Num 20, Y = Num 10 \<rparr>,
               objectBounds := \<lparr> minX = Num 0, minY = Num 0, maxX = Num 400, maxY = Num 250 \<rparr>,
               time := 1100,
               velocity := \<lparr> X = Num 0.5, Y = Num 0 \<rparr>,
               hasMoved := True,
               position := \<lparr> X = Num 50, Y = Num 0 \<rparr>,
               matrix := \<lparr> m0 = Num 1, m1 = Num 0, m2 = Num 0, m3 = Num 1, m4 = Num 50, m5 = Num 0 \<rparr> \<rparr>"
  "decelerationStack dragged = []"
  "stackLength dragged = None"
  "animationLoopRunning dragged = False"
  by (simp_all add: dragged_def onMouseMove_def grabbed_fields Let_def getCursorPositionRelativeTo_def
      getCache_def pointerAt_def dragAxis_def edgeDamp_def defaultSettings_def setObjectMatrix_def
      setCache_def mkrect_def noCache_def)

lemma released_fields:
  "currentObject released = None"
  "settings released = defaultSettings"
  "draggable_cache (elements released 0) =
     noCache \<lparr> rect := mkrect 0 0 100 50,
               initialCursorPosRelativeToObject := \<lparr> X = Num 20, Y = Num 10 \<rparr>,
               objectBounds := \<lparr> minX = Num 0, minY = Num 0, maxX = Num 400, maxY = Num 250 \<rparr>,
               time := 1110,
               velocity := \<lparr> X = Num 0.5, Y = Num 0 \<rparr>,
               hasMoved := True,
               position := \<lparr> X = Num 50, Y = Num 0 \<rparr>,
               matrix := \<lparr> m0 = Num 1, m1 = Num 0, m2 = Num 0, m3 = Num 1, m4 = Num 50, m5 = Num 0 \<rparr> \<rparr>"
  "decelerationStack released = [0]"
  "stackLength released = Some 1"
  "animationLoopRunning released = True"
  by (simp_all add: released_def onMouseUp_def dragged_fields Let_def releaseAxis_def
      defaultSettings_def setCache_def noCache_def)

section \<open>Dragging\<close>

lemma onMouseMove_position:
  assumes "currentObject s = Some object" and "draggable_mouseIsDown (elements s object)"
  shows "coord ax (position (draggable_cache (elements (onMouseMove ev now s) object))) =
         dragAxis (settings s)
           (client ax ev - origin ax (rect (draggable_cache (container s))))
           (coord ax (initialCursorPosRelativeToObject (draggable_cache (elements s object))))
           (lower ax (objectBounds (draggable_cache (elements s object))))
           (upper ax (objectBounds (draggable_cache (elements s object))))"
  using assms
  by (cases ax) (simp_all add: onMouseMove_def Let_def getCursorPositionRelativeTo_def getCache_def)




lemma onMouseMove_velocity:
  assumes "currentObject s = Some object" and "draggable_mouseIsDown (elements s object)"
  shows "coord ax (velocity (draggable_cache (elements (onMouseMove ev now s) object))) =
         (coord ax (position (draggable_cache (elements (onMouseMove ev now s) object)))
            - coord ax (position (draggable_cache (elements s object))))
         / Num (of_int (now - time (draggable_cache (elements s object))))"
  using assms
  by (cases ax) (simp_all add: onMouseMove_def Let_def)

text \<open>
  C7, as the source has it.  The source divides by the elapsed time without a test.  In
  the scenario, a pointer-move in the millisecond of the pointer-down replaces the
  velocity \<^verbatim>\<open>{X: 0, Y: 0}\<close> by \<^verbatim>\<open>{X: Infinity, Y: Infinity}\<close>.
\<close>

theorem move_in_same_millisecond:
  "velocity (draggable_cache (elements grabbed 0)) = \<lparr> X = Num 0, Y = Num 0 \<rparr>
   \<and> velocity (draggable_cache (elements (onMouseMove (pointerAt 470 20 0) 1000 grabbed) 0))
       = \<lparr> X = PosInf, Y = PosInf \<rparr>"
  by (simp add: onMouseMove_def grabbed_fields Let_def getCursorPositionRelativeTo_def
      getCache_def pointerAt_def dragAxis_def edgeDamp_def defaultSettings_def setObjectMatrix_def
      setCache_def mkrect_def noCache_def signed_inf_def)

text \<open>
  C7, amended.  During an active drag, a pointer-move always overwrites the velocity of
  each axis by \<open>(newPosition - previousPosition) / elapsed\<close>, and raises no error.  With a
  zero elapsed time the quotient is not finite: \<^verbatim>\<open>Infinity\<close> on an axis whose position
  has grown, \<^verbatim>\<open>-Infinity\<close> on an axis whose position has shrunk, \<^verbatim>\<open>NaN\<close> on an axis
  whose position has not changed.
\<close>

theorem move_velocity_quotient:
  assumes "currentObject s = Some object" and "draggable_mouseIsDown (elements s object)"
    and "coord ax (position (draggable_cache (elements s object))) = Num p0"
    and "coord ax (position (draggable_cache (elements (onMouseMove ev now s) object))) = Num p1"
  shows "coord ax (velocity (draggable_cache (elements (onMouseMove ev now s) object))) =
         (if now = time (draggable_cache (elements s object))
          then (if p0 < p1 then PosInf else if p1 < p0 then NegInf else NaN)
          else Num ((p1 - p0) / of_int (now - time (draggable_cache (elements s object)))))"
  using assms(3,4) by (simp add: onMouseMove_velocity [OF assms(1,2)] signed_inf_def)

theorem move_velocity_quotient_witness:
  "coord AxisX (velocity (draggable_cache (elements (onMouseMove (pointerAt 470 20 0) 1000 grabbed) 0)))
     = PosInf"
proof -
  have p0: "coord AxisX (position (draggable_cache (elements grabbed 0))) = Num 0"
    by (simp add: grabbed_fields noCache_def)
  have p1: "coord AxisX (position (draggable_cache (elements (onMouseMove (pointerAt 470 20 0) 1000 grabbed) 0)))
      = Num 412.5"
    using onMouseMove_position [OF grabbed_fields(1) grabbed_fields(2), of AxisX "pointerAt 470 20 0" 1000]
    by (simp add: grabbed_fields pointerAt_def dragAxis_def edgeDamp_def
        defaultSettings_def mkrect_def noCache_def)
  show ?thesis
    using move_velocity_quotient [OF grabbed_fields(1) grabbed_fields(2) p0 p1]
    by (simp add: grabbed_fields)
qed

section \<open>Releasing\<close>





section \<open>One tick of the deceleration\<close>

text \<open>What the body of the pass changes: the cache of its object, the two records and
  the list of indices.\<close>

lemma progressObject_fields:
  "settings (fst (progressObject now object index acc)) = settings (fst acc)"
  "container (fst (progressObject now object index acc)) = container (fst acc)"
  "currentObject (fst (progressObject now object index acc)) = currentObject (fst acc)"
  "decelerationStack (fst (progressObject now object index acc)) = decelerationStack (fst acc)"
  "stackLength (fst (progressObject now object index acc)) = stackLength (fst acc)"
  "animationLoopRunning (fst (progressObject now object index acc)) = animationLoopRunning (fst acc)"
  "object' \<noteq> object \<Longrightarrow>
     elements (fst (progressObject now object index acc)) object' = elements (fst acc) object'"
  "snd (progressObject now object index acc) =
     (if snd (snd (decelerateObject (settings (fst acc)) now (draggable_cache (elements (fst acc) object))))
      then snd acc @ [index] else snd acc)"
  by (simp_all add: progressObject_def Let_def split_def)

lemma progressObject_cache:
  assumes "decelerateObject (settings (fst acc)) now (draggable_cache (elements (fst acc) object))
            = (vel, pos, stopped)"
  shows "draggable_cache (elements (fst (progressObject now object index acc)) object) =
           (setObjectMatrix (draggable_cache (elements (fst acc) object)) pos)
             \<lparr> time := now, position := pos, velocity := vel \<rparr>"
    and "emitted (fst (progressObject now object index acc)) =
           emitted (fst acc)
           @ (if stopped then [(DecelerationEnd, [ObjectArg object, PositionArg pos]),
                               (Stop, [ObjectArg object, PositionArg pos])] else [])"
  using assms by (simp_all add: progressObject_def Let_def)

text \<open>A tick on a stack that holds one object.\<close>

lemma progressAnimations_single:
  assumes "decelerationStack s = [object]"
    and "decelerateObject (settings s) now (draggable_cache (elements s object)) = (vel, pos, stopped)"
  shows "settings (progressAnimations now s) = settings s"
    and "container (progressAnimations now s) = container s"
    and "currentObject (progressAnimations now s) = currentObject s"
    and "decelerationStack (progressAnimations now s) = (if stopped then [] else [object])"
    and "draggable_cache (elements (progressAnimations now s) object) =
          (setObjectMatrix (draggable_cache (elements s object)) pos)
            \<lparr> time := now, position := pos, velocity := vel \<rparr>"
    and "emitted (progressAnimations now s) =
          emitted s
          @ (if stopped then [(DecelerationEnd, [ObjectArg object, PositionArg pos]),
                              (Stop, [ObjectArg object, PositionArg pos])] else [])
          @ [(Decelerate, [StackArg (if stopped then [] else [object])])]"
    and "stackLength s = Some 1 \<Longrightarrow> stackLength (progressAnimations now s) = Some (if stopped then 0 else 1)"
    and "stackLength s = Some 1 \<Longrightarrow>
          animationLoopRunning (progressAnimations now s) = (animationLoopRunning s \<and> \<not> stopped)"
  using assms
  by (simp_all add: progressAnimations_def split_def Let_def progressObject_fields
      progressObject_cache splice1_def)

lemma decelerateAxis_Num:
  assumes "friction st = Num f" and "bounceFriction st = Num bf"
  shows "decelerateAxis st (Num d) (Num v) (Num p) (Num mn) (Num mx) =
    (let v0 = v * (1 - d / 1000 * f);
         p0 = (if v0 \<noteq> 0 then p + v0 * d else p);
         hit1 = (p0 \<le> mn \<and> sgn v0 = - 1);
         v1 = (if hit1 then - (v0 * (1 - bf)) else v0);
         p1 = (if hit1 then mn else p0);
         hit2 = (mx \<le> p1 \<and> sgn v1 = 1)
     in (Num (if hit2 then - (v1 * (1 - bf)) else v1), Num (if hit2 then mx else p1)))"
  using assms
  by (simp add: decelerateAxis_def Let_def min_def max_def)

text \<open>
  C2, as the source has it.  The tick first decays the velocity and then moves the
  object by the decayed velocity: in the scenario the object is released at 50 with
  the velocity 0.5; after a tick of 100 ms its velocity is 0.45 and its position is 95,
  an advance of 45 and not of 50.
\<close>

theorem tick_of_released:
  "X (velocity (draggable_cache (elements released 0))) = Num 0.5
   \<and> X (position (draggable_cache (elements released 0))) = Num 50
   \<and> X (velocity (draggable_cache (elements (progressAnimations 1210 released) 0))) = Num 0.45
   \<and> X (position (draggable_cache (elements (progressAnimations 1210 released) 0))) = Num 95
   \<and> X (position (draggable_cache (elements (progressAnimations 1210 released) 0))) \<noteq> Num (50 + 50)"
proof -
  have "decelerateObject (settings released) 1210 (draggable_cache (elements released 0))
      = (\<lparr> X = Num 0.45, Y = Num 0 \<rparr>, \<lparr> X = Num 95, Y = Num 0 \<rparr>, False)"
    by (simp add: released_fields decelerateObject_def decelerateAxis_def defaultSettings_def
        noCache_def Let_def)
  from progressAnimations_single(5) [OF released_fields(4) this] show ?thesis
    by (simp add: released_fields)
qed

text \<open>
  C2, amended.  In a single deceleration tick applied to an object with velocity
  \<^verbatim>\<open>{X: 0.5, Y: 0}\<close>, friction 1 and an elapsed time of 100 ms, the X velocity after the
  tick is 0.45 and the X position advances by 45, the decayed velocity times the elapsed
  time (provided the new position stays below the upper bound, so that the object does
  not bounce).
\<close>

theorem tick_moves_by_decayed_velocity:
  assumes "decelerationStack s = [object]"
    and "velocity (draggable_cache (elements s object)) = \<lparr> X = Num 0.5, Y = Num 0 \<rparr>"
    and "friction (settings s) = Num 1"
    and "now - time (draggable_cache (elements s object)) = 100"
    and "X (position (draggable_cache (elements s object))) = Num px"
    and "minX (objectBounds (draggable_cache (elements s object))) = Num mn"
    and "maxX (objectBounds (draggable_cache (elements s object))) = Num mx"
    and "px + 45 < mx"
  shows "X (velocity (draggable_cache (elements (progressAnimations now s) object))) = Num 0.45
       \<and> X (position (draggable_cache (elements (progressAnimations now s) object))) = Num (px + 45)"
proof -
  obtain vel pos stopped where
    d: "decelerateObject (settings s) now (draggable_cache (elements s object)) = (vel, pos, stopped)"
    by (cases "decelerateObject (settings s) now (draggable_cache (elements s object))") auto
  have ax: "decelerateAxis (settings s) (Num 100) (Num 0.5) (Num px) (Num mn) (Num mx)
      = (Num 0.45, Num (px + 45))"
    using assms(3,8) by (simp add: decelerateAxis_def Let_def)
  have "X vel = Num 0.45 \<and> X pos = Num (px + 45)"
    using d assms(2,4-7) ax by (auto simp add: decelerateObject_def Let_def split_def)
  then show ?thesis
    by (simp add: progressAnimations_single(5) [OF assms(1) d])
qed

theorem tick_moves_by_decayed_velocity_witness:
  "X (velocity (draggable_cache (elements (progressAnimations 1210 released) 0))) = Num 0.45
   \<and> X (position (draggable_cache (elements (progressAnimations 1210 released) 0))) = Num (50 + 45)"
proof -
  have v: "velocity (draggable_cache (elements released 0)) = \<lparr> X = Num 0.5, Y = Num 0 \<rparr>"
    by (simp add: released_fields)
  have f: "friction (settings released) = Num 1"
    by (simp add: released_fields defaultSettings_def)
  have e: "1210 - time (draggable_cache (elements released 0)) = 100"
    by (simp add: released_fields)
  have p: "X (position (draggable_cache (elements released 0))) = Num 50"
    by (simp add: released_fields)
  have mn: "minX (objectBounds (draggable_cache (elements released 0))) = Num 0"
    by (simp add: released_fields)
  have mx: "maxX (objectBounds (draggable_cache (elements released 0))) = Num 400"
    by (simp add: released_fields)
  have lt: "(50::real) + 45 < 400" by simp
  show ?thesis
    by (rule tick_moves_by_decayed_velocity [OF released_fields(4) v f e p mn mx lt])
qed

section \<open>Removal from the stack\<close>

lemma threeCoasting_fields:
  "settings threeCoasting = defaultSettings"
  "decelerationStack threeCoasting = [0, 1, 2]"
  "stackLength threeCoasting = Some 3"
  "draggable_cache (elements threeCoasting 0) = coasting (1 / 2000)"
  "draggable_cache (elements threeCoasting (Suc 0)) = coasting (1 / 2000)"
  "draggable_cache (elements threeCoasting 2) = coasting (1 / 2)"
  by (simp_all add: threeCoasting_def setCache_def constructor_def)

lemma decelerateObject_coasting:
  "decelerateObject defaultSettings 1126 (coasting (1 / 2000)) =
     (\<lparr> X = Num (123 / 250000), Y = Num 0 \<rparr>, \<lparr> X = Num 50, Y = Num 0 \<rparr>, True)"
  "decelerateObject defaultSettings 1126 (coasting (1 / 2)) =
     (\<lparr> X = Num (123 / 250), Y = Num 0 \<rparr>, \<lparr> X = Num (7234 / 125), Y = Num 0 \<rparr>, False)"
  by (simp_all add: decelerateObject_def decelerateAxis_def coasting_def defaultSettings_def
      noCache_def Let_def trunc_def wrap32_def)

text \<open>
  C8, on the source.  \<^verbatim>\<open>progressAnimations\<close> collects the indices of the objects that
  stop and, after the pass, splices them out one by one in ascending order; each
  splice shifts the elements behind it, so from the second index on the wrong element
  goes.  In \<open>threeCoasting\<close> the objects 0 and 1 stop in the tick at 1126 and the object
  2 keeps moving (its velocity after the tick is 0.492), yet the stack after the tick
  holds the object 1 alone: the moving object 2 has left it, the stopped object 1 has
  not.
\<close>

theorem two_stops_in_one_tick:
  "decelerationStack threeCoasting = [0, 1, 2]
   \<and> decelerateObject (settings threeCoasting) 1126 (draggable_cache (elements threeCoasting 0))
       = (\<lparr> X = Num (123 / 250000), Y = Num 0 \<rparr>, \<lparr> X = Num 50, Y = Num 0 \<rparr>, True)
   \<and> decelerateObject (settings threeCoasting) 1126 (draggable_cache (elements threeCoasting 1))
       = (\<lparr> X = Num (123 / 250000), Y = Num 0 \<rparr>, \<lparr> X = Num 50, Y = Num 0 \<rparr>, True)
   \<and> decelerateObject (settings threeCoasting) 1126 (draggable_cache (elements threeCoasting 2))
       = (\<lparr> X = Num (123 / 250), Y = Num 0 \<rparr>, \<lparr> X = Num (7234 / 125), Y = Num 0 \<rparr>, False)
   \<and> decelerationStack (progressAnimations 1126 threeCoasting) = [1]"
  by (simp add: progressAnimations_def split_def progressObject_fields threeCoasting_fields
      decelerateObject_coasting splice1_def)

end
